theory Spec2Isabelle
  imports Main "HOL-Library.Sublist"
begin

section \<open>Python strings\<close>

text \<open>
  A Python \<open>str\<close> is a sequence of Unicode code points and \<open>len\<close> counts code points,
  so a string is modelled as the list of its code points. \<open>py\<close> reads an ASCII literal.
\<close>

type_synonym pystr = "nat list"

definition py :: "string \<Rightarrow> pystr" where
  "py s = map of_char s"

text \<open>
  \<open>str.isspace\<close> on one code point. \<open>str.strip()\<close> and the class \<open>\s\<close> of a \<open>str\<close>
  pattern in \<open>re\<close> both use this predicate.
\<close>

definition isspace :: "nat \<Rightarrow> bool" where
  "isspace c \<longleftrightarrow>
     (9 \<le> c \<and> c \<le> 13) \<or> (28 \<le> c \<and> c \<le> 32) \<or> c = 133 \<or> c = 160 \<or> c = 5760 \<or>
     (8192 \<le> c \<and> c \<le> 8202) \<or> c = 8232 \<or> c = 8233 \<or> c = 8239 \<or> c = 8287 \<or> c = 12288"

text \<open>\<open>s.strip()\<close>\<close>

definition strip :: "pystr \<Rightarrow> pystr" where
  "strip s = rev (dropWhile isspace (rev (dropWhile isspace s)))"

text \<open>\<open>s.split(sep)\<close> for a one-character separator: never empty, one part more than separators.\<close>

fun split_all :: "nat \<Rightarrow> pystr \<Rightarrow> pystr list" where
  "split_all sep [] = [[]]"
| "split_all sep (c # cs) =
     (if c = sep then [] # split_all sep cs
      else (case split_all sep cs of [] \<Rightarrow> [[c]] | w # ws \<Rightarrow> (c # w) # ws))"

text \<open>The text before and after the first occurrence of a separator, if there is one.\<close>

fun find_sep :: "nat \<Rightarrow> pystr \<Rightarrow> (pystr \<times> pystr) option" where
  "find_sep sep [] = None"
| "find_sep sep (c # cs) =
     (if c = sep then Some ([], cs)
      else (case find_sep sep cs of None \<Rightarrow> None | Some (a, r) \<Rightarrow> Some (c # a, r)))"

text \<open>\<open>s.split(sep, maxsplit)\<close>: at most \<open>maxsplit\<close> cuts, the rest stays in the last part.\<close>

fun split_max :: "nat \<Rightarrow> nat \<Rightarrow> pystr \<Rightarrow> pystr list" where
  "split_max sep 0 s = [s]"
| "split_max sep (Suc n) s =
     (case find_sep sep s of None \<Rightarrow> [s] | Some (a, r) \<Rightarrow> a # split_max sep n r)"

text \<open>
  \<open>re.search(r'//\s*(.*)', s)\<close>: \<open>None\<close> when \<open>s\<close> has no two consecutive slashes
  (code point 47), otherwise group 1 of the leftmost match. Both stars are greedy and the
  group may be empty, so the match at the first \<open>//\<close> never backtracks: \<open>\s*\<close> takes all
  the white space that follows, and \<open>.*\<close> runs up to the next line feed (code point 10),
  the one character \<open>.\<close> refuses.
\<close>

fun re_search_comment :: "pystr \<Rightarrow> pystr option" where
  "re_search_comment (a # b # cs) =
     (if a = 47 \<and> b = 47 then Some (takeWhile (\<lambda>c. c \<noteq> 10) (dropWhile isspace cs))
      else re_search_comment (b # cs))"
| "re_search_comment [a] = None"
| "re_search_comment [] = None"

text \<open>\<open>str(n)\<close> for a count.\<close>

function str_nat :: "nat \<Rightarrow> pystr" where
  "str_nat n = (if n < 10 then [48 + n] else str_nat (n div 10) @ [48 + n mod 10])"
  by pat_completeness auto
termination
  by (relation "measure id") auto

declare str_nat.simps [simp del]

definition str_int :: "int \<Rightarrow> pystr" where
  "str_int i = (if i < 0 then 45 # str_nat (nat (- i)) else str_nat (nat i))"

section \<open>The data model\<close>

text \<open>
  The comment record: the dictionary with the four keys \<open>'file'\<close>, \<open>'line'\<close>,
  \<open>'content'\<close> and \<open>'comment_text'\<close> that the scan builds. The fields carry
  the prefix \<open>rec_\<close>, the local variables of the scan keep their names.
\<close>

record comment =
  rec_file :: pystr
  rec_line :: pystr
  rec_content :: pystr
  rec_comment_text :: pystr

text \<open>
  \<open>comments_by_lang\<close> is a \<open>defaultdict(list)\<close>. A Python dictionary keeps its keys in
  insertion order, so it is an association list with distinct keys, newest key last.
\<close>

type_synonym buckets = "(pystr \<times> comment list) list"

text \<open>\<open>d.get(k, [])\<close>: a lookup that never inserts, also on a \<open>defaultdict\<close>.\<close>

definition dict_get :: "pystr \<Rightarrow> ('v list) \<Rightarrow> (pystr \<times> 'v list) list \<Rightarrow> 'v list" where
  "dict_get k dflt d = (case map_of d k of None \<Rightarrow> dflt | Some v \<Rightarrow> v)"

text \<open>
  \<open>d[k].append(c)\<close> on a \<open>defaultdict(list)\<close>: a missing key is first inserted with an
  empty list, at the end of the key order.
\<close>

fun append_to :: "pystr \<Rightarrow> comment \<Rightarrow> buckets \<Rightarrow> buckets" where
  "append_to k c [] = [(k, [c])]"
| "append_to k c ((k', cs) # rest) =
     (if k' = k then (k', cs @ [c]) # rest else (k', cs) # append_to k c rest)"

text \<open>\<open>d[k] += 1\<close> on a \<open>defaultdict(int)\<close>.\<close>

fun increment :: "pystr \<Rightarrow> (pystr \<times> int) list \<Rightarrow> (pystr \<times> int) list" where
  "increment k [] = [(k, 1)]"
| "increment k ((k', n) # rest) =
     (if k' = k then (k', n + 1) # rest else (k', n) # increment k rest)"

section \<open>The outside world\<close>

text \<open>
  \<open>langdetect.detect\<close> returns a language code or raises. It samples at random, so it is
  a function of a hidden generator state of type \<open>'d\<close> as well as of the text.
\<close>

datatype detected = Detected pystr | DetectRaises

type_synonym 'd detector = "'d \<Rightarrow> pystr \<Rightarrow> detected \<times> 'd"

datatype path_kind = Missing | RegularFile | Directory

text \<open>
  The exceptions of the script. \<open>FileNotFoundError\<close>, \<open>NotADirectoryError\<close> and
  \<open>PermissionError\<close> are subclasses of \<open>OSError\<close>; all of them are subclasses of
  \<open>Exception\<close>. Each carries its \<open>str(e)\<close>, \<open>CalledProcessError\<close> its return code.
\<close>

datatype exn =
    FileNotFoundError pystr
  | NotADirectoryError pystr
  | PermissionError pystr
  | UnicodeDecodeError pystr
  | CalledProcessError int

text \<open>
  What starting \<open>rg\<close> in a working directory does: it exits with a return code and its
  decoded standard output, or \<open>subprocess.run\<close> fails before there is a result (no such
  program or working directory, the working directory is no directory or may not be
  entered, the output is not valid text).
\<close>

datatype launch_failure =
    NoSuchFile pystr
  | NotADirectory pystr
  | PermissionDenied pystr
  | UndecodableOutput pystr

datatype proc_outcome = Exited int pystr | LaunchFails launch_failure

fun raised_by :: "launch_failure \<Rightarrow> exn" where
  "raised_by (NoSuchFile m) = FileNotFoundError m"
| "raised_by (NotADirectory m) = NotADirectoryError m"
| "raised_by (PermissionDenied m) = PermissionError m"
| "raised_by (UndecodableOutput m) = UnicodeDecodeError m"

record 'd env =
  path_kind_of :: "pystr \<Rightarrow> path_kind"
  rg :: "pystr \<Rightarrow> proc_outcome"
  detect :: "'d detector"

text \<open>
  The state a run changes: what was printed (one entry for each \<open>print\<close>), the working
  directories \<open>subprocess.run\<close> was called with, and the detector's generator.
\<close>

record 'd world =
  stdout :: "pystr list"
  run_calls :: "pystr list"
  rng :: 'd

definition print :: "pystr \<Rightarrow> 'd world \<Rightarrow> 'd world" where
  "print s w = w\<lparr>stdout := stdout w @ [s]\<rparr>"

text \<open>\<open>os.path.exists\<close>: true of a file as well as of a directory.\<close>

definition os_path_exists :: "'d env \<Rightarrow> pystr \<Rightarrow> bool" where
  "os_path_exists e p \<longleftrightarrow> path_kind_of e p \<noteq> Missing"

text \<open>
  \<open>subprocess.run(["rg", "//", "--line-number", "--with-filename"], capture_output=True,
  text=True, cwd=directory, check=check)\<close>. Only \<open>check=True\<close> turns a non-zero return
  code into \<open>CalledProcessError\<close>.
\<close>

definition subprocess_run ::
  "'d env \<Rightarrow> bool \<Rightarrow> pystr \<Rightarrow> 'd world \<Rightarrow> (exn + int \<times> pystr) \<times> 'd world" where
  "subprocess_run e check cwd w =
     (let w' = w\<lparr>run_calls := run_calls w @ [cwd]\<rparr> in
      case rg e cwd of
        LaunchFails f \<Rightarrow> (Inl (raised_by f), w')
      | Exited rc out \<Rightarrow>
          if check \<and> rc \<noteq> 0 then (Inl (CalledProcessError rc), w') else (Inr (rc, out), w'))"

section \<open>The script\<close>

text \<open>
  The body of the loop of \<open>get_rust_comments\<close> for one line of the search output, on the
  pair of the detector's generator and \<open>comments_by_lang\<close>. Every \<open>continue\<close> and every
  test that fails returns the pair as it was. \<open>split\<close> with \<open>maxsplit = 2\<close> gives at
  most three parts, so the parts that pass \<open>len(parts) < 3\<close> are exactly three.
\<close>

definition scan_line :: "'d detector \<Rightarrow> pystr \<Rightarrow> 'd \<times> buckets \<Rightarrow> 'd \<times> buckets" where
  "scan_line det l s =
     (if strip l = [] then s
      else
        (case split_max 58 2 l of
           [filename, line_num, content] \<Rightarrow>
             (case re_search_comment content of
                None \<Rightarrow> s
              | Some g \<Rightarrow>
                  (let comment_text = strip g in
                   if length comment_text > 3 then
                     (case det (fst s) comment_text of
                        (Detected lang, d') \<Rightarrow>
                          (d', append_to lang
                                 \<lparr>rec_file = filename, rec_line = line_num,
                                  rec_content = strip content,
                                  rec_comment_text = comment_text\<rparr> (snd s))
                      | (DetectRaises, d') \<Rightarrow>
                          (d', append_to (py ''unknown'')
                                 \<lparr>rec_file = filename, rec_line = line_num,
                                  rec_content = strip content,
                                  rec_comment_text = comment_text\<rparr> (snd s)))
                   else s))
         | _ \<Rightarrow> s))"

definition scan_lines :: "'d detector \<Rightarrow> pystr list \<Rightarrow> 'd \<times> buckets \<Rightarrow> 'd \<times> buckets" where
  "scan_lines det ls s = fold (scan_line det) ls s"

definition get_rust_comments ::
  "'d env \<Rightarrow> pystr \<Rightarrow> 'd world \<Rightarrow> (exn + buckets) \<times> 'd world" where
  "get_rust_comments e directory w =
     (if \<not> os_path_exists e directory
      then (Inl (FileNotFoundError (py ''Directory not found: '' @ directory)), w)
      else
        (case subprocess_run e False directory w of
           (Inl x, w') \<Rightarrow> (Inl x, w')
         | (Inr (rc, out), w') \<Rightarrow>
             (let (d, comments_by_lang) =
                    scan_lines (detect e) (split_all 10 out) (rng w', [])
              in (Inr comments_by_lang, w'\<lparr>rng := d\<rparr>))))"

text \<open>
  The two output functions on the value of the mapping: what they print, given the
  records it holds. Each returns the mapping next to the world. What they do to the
  object they are given a reference to is the subject of the section on the store.
\<close>

definition print_comment :: "comment \<Rightarrow> 'd world \<Rightarrow> 'd world" where
  "print_comment c w =
     print (py ''Content: '' @ rec_content c)
       (print (py ''Line: '' @ rec_line c)
          (print (10 # py ''File: '' @ rec_file c) w))"

definition print_comments_by_language :: "buckets \<Rightarrow> 'd world \<Rightarrow> buckets \<times> 'd world" where
  "print_comments_by_language comments_by_lang w =
     (comments_by_lang,
      fold print_comment (dict_get (py ''es'') [] comments_by_lang)
        (print (10 # py ''=== Spanish Comments (es) ==='') w))"

definition files_to_translate :: "buckets \<Rightarrow> (pystr \<times> int) list" where
  "files_to_translate comments_by_lang =
     fold (\<lambda>c. increment (rec_file c)) (dict_get (py ''es'') [] comments_by_lang) []"

definition summary_line :: "pystr \<times> int \<Rightarrow> pystr" where
  "summary_line fc = 10 # fst fc @ py '': '' @ str_int (snd fc) @ py '' Spanish comments''"

definition generate_translation_todo :: "buckets \<Rightarrow> 'd world \<Rightarrow> buckets \<times> 'd world" where
  "generate_translation_todo comments_by_lang w =
     (comments_by_lang,
      fold (\<lambda>fc. print (summary_line fc)) (files_to_translate comments_by_lang)
        (print (10 # py ''=== Files to Translate Summary ==='') w))"

text \<open>
  \<open>str(e)\<close>, which the message of the last handler prints. For a \<open>CalledProcessError\<close>
  it names the command, as the \<open>str\<close> of the argument list in quotes, and the return
  code; a negative return code is the number of the signal that ended the process, with
  its name where \<open>signal.Signals\<close> has one (the numbers are those of Linux).
\<close>

definition quoted :: "pystr \<Rightarrow> pystr" where
  "quoted s = 39 # s @ [39]"

definition rg_command :: pystr where
  "rg_command =
     py ''['' @ quoted (py ''rg'') @ py '', '' @ quoted (py ''//'') @ py '', '' @
     quoted (py ''--line-number'') @ py '', '' @ quoted (py ''--with-filename'') @ py '']''"

definition signal_names :: "(nat \<times> string) list" where
  "signal_names =
     [(1, ''SIGHUP''), (2, ''SIGINT''), (3, ''SIGQUIT''), (4, ''SIGILL''), (5, ''SIGTRAP''),
      (6, ''SIGABRT''), (7, ''SIGBUS''), (8, ''SIGFPE''), (9, ''SIGKILL''), (10, ''SIGUSR1''),
      (11, ''SIGSEGV''), (12, ''SIGUSR2''), (13, ''SIGPIPE''), (14, ''SIGALRM''),
      (15, ''SIGTERM''), (16, ''SIGSTKFLT''), (17, ''SIGCHLD''), (18, ''SIGCONT''),
      (19, ''SIGSTOP''), (20, ''SIGTSTP''), (21, ''SIGTTIN''), (22, ''SIGTTOU''),
      (23, ''SIGURG''), (24, ''SIGXCPU''), (25, ''SIGXFSZ''), (26, ''SIGVTALRM''),
      (27, ''SIGPROF''), (28, ''SIGWINCH''), (29, ''SIGIO''), (30, ''SIGPWR''),
      (31, ''SIGSYS''), (34, ''SIGRTMIN''), (64, ''SIGRTMAX'')]"

fun str_exn :: "exn \<Rightarrow> pystr" where
  "str_exn (FileNotFoundError m) = m"
| "str_exn (NotADirectoryError m) = m"
| "str_exn (PermissionError m) = m"
| "str_exn (UnicodeDecodeError m) = m"
| "str_exn (CalledProcessError rc) =
     (if rc < 0 then
        (case map_of signal_names (nat (- rc)) of
           Some name \<Rightarrow>
             py ''Command '' @ quoted rg_command @ py '' died with <Signals.'' @ py name @
             py '': '' @ str_int (- rc) @ py ''>.''
         | None \<Rightarrow>
             py ''Command '' @ quoted rg_command @ py '' died with unknown signal '' @
             str_int (- rc) @ py ''.'')
      else
        py ''Command '' @ quoted rg_command @ py '' returned non-zero exit status '' @
        str_int rc @ py ''.'')"

text \<open>
  \<open>main\<close>, from the parsed argument on: \<open>None\<close> is the missing positional argument,
  whose default is the current directory. The handlers are tried in the order of the
  source.
\<close>

definition main :: "'d env \<Rightarrow> pystr option \<Rightarrow> 'd world \<Rightarrow> 'd world" where
  "main e arg w =
     (let directory = (case arg of None \<Rightarrow> py ''.'' | Some p \<Rightarrow> p) in
      case get_rust_comments e directory w of
        (Inr comments, w1) \<Rightarrow>
          (let (comments1, w2) = print_comments_by_language comments w1;
               (comments2, w3) = generate_translation_todo comments1 w2
           in w3)
      | (Inl (FileNotFoundError m), w1) \<Rightarrow> print (py ''Error: '' @ m) w1
      | (Inl (CalledProcessError rc), w1) \<Rightarrow>
          print (py ''Error: Unable to search in directory: '' @ directory) w1
      | (Inl x, w1) \<Rightarrow> print (py ''Error: An unexpected error occurred: '' @ str_exn x) w1)"

section \<open>The mapping as an object in the store\<close>

text \<open>
  The output functions are called with a reference to the mapping, and Python lets a
  function change the object behind a reference. To say what they do to it, the
  dictionaries live in a store: the list of all objects, where the address of an object
  is its position and a new object is put at the end. The script has two classes of
  dictionary: the \<open>defaultdict(list)\<close> of the scan and the \<open>defaultdict(int)\<close> of the
  summary.
\<close>

datatype obj = ListDict buckets | IntDict "(pystr \<times> int) list"

type_synonym store = "obj list"

definition new_object :: "obj \<Rightarrow> store \<Rightarrow> nat \<times> store" where
  "new_object x h = (length h, h @ [x])"

text \<open>
  The dictionary behind a reference. \<open>None\<close> stands for a reference that does not lead
  to a dictionary of that class: the script makes no such call, and what Python does
  with one is outside this model.
\<close>

definition list_dict_at :: "store \<Rightarrow> nat \<Rightarrow> buckets option" where
  "list_dict_at h a =
     (if a < length h then (case h ! a of ListDict m \<Rightarrow> Some m | IntDict c \<Rightarrow> None)
      else None)"

definition int_dict_at :: "store \<Rightarrow> nat \<Rightarrow> (pystr \<times> int) list option" where
  "int_dict_at h a =
     (if a < length h then (case h ! a of IntDict c \<Rightarrow> Some c | ListDict m \<Rightarrow> None)
      else None)"

text \<open>
  \<open>d.get(k, dflt)\<close> on the \<open>defaultdict(list)\<close> at \<open>a\<close>. \<open>get\<close> is the method of
  \<open>dict\<close>: it does not call the default factory, and the store is as it was.
\<close>

definition get_method ::
  "nat \<Rightarrow> pystr \<Rightarrow> comment list \<Rightarrow> store \<Rightarrow> (comment list \<times> store) option" where
  "get_method a k dflt h =
     (case list_dict_at h a of None \<Rightarrow> None | Some m \<Rightarrow> Some (dict_get k dflt m, h))"

text \<open>
  \<open>d[k]\<close> on the \<open>defaultdict(list)\<close> at \<open>a\<close>, for comparison: the subscript calls the
  default factory for a missing key and inserts the new list.
\<close>

definition subscript :: "nat \<Rightarrow> pystr \<Rightarrow> store \<Rightarrow> (comment list \<times> store) option" where
  "subscript a k h =
     (case list_dict_at h a of
        None \<Rightarrow> None
      | Some m \<Rightarrow>
          (case map_of m k of
             Some v \<Rightarrow> Some (v, h)
           | None \<Rightarrow> Some ([], h[a := ListDict (m @ [(k, [])])])))"

text \<open>\<open>d[k] += 1\<close> on the \<open>defaultdict(int)\<close> at \<open>a\<close>.\<close>

definition add_one :: "nat \<Rightarrow> pystr \<Rightarrow> store \<Rightarrow> store option" where
  "add_one a k h =
     (case int_dict_at h a of None \<Rightarrow> None | Some c \<Rightarrow> Some (h[a := IntDict (increment k c)]))"

text \<open>
  \<open>print_comments_by_language\<close> on the store: \<open>a\<close> is the reference it is called with.
  The loop reads the records and prints.
\<close>

definition print_comments_by_language_ref ::
  "nat \<Rightarrow> store \<times> 'd world \<Rightarrow> (store \<times> 'd world) option" where
  "print_comments_by_language_ref a s =
     (let w1 = print (10 # py ''=== Spanish Comments (es) ==='') (snd s) in
      case get_method a (py ''es'') [] (fst s) of
        None \<Rightarrow> None
      | Some (es, h1) \<Rightarrow> Some (h1, fold print_comment es w1))"

text \<open>
  The first loop of \<open>generate_translation_todo\<close>: for each record,
  \<open>files_to_translate[comment['file']] += 1\<close>, where \<open>ft\<close> is the reference to
  \<open>files_to_translate\<close>.
\<close>

fun count_files :: "nat \<Rightarrow> comment list \<Rightarrow> store \<Rightarrow> store option" where
  "count_files ft [] h = Some h"
| "count_files ft (c # cs) h =
     (case add_one ft (rec_file c) h of None \<Rightarrow> None | Some h' \<Rightarrow> count_files ft cs h')"

text \<open>
  \<open>generate_translation_todo\<close> on the store: \<open>files_to_translate\<close> is a new object, the
  first loop writes to it, the second reads its items and prints them.
\<close>

definition generate_translation_todo_ref ::
  "nat \<Rightarrow> store \<times> 'd world \<Rightarrow> (store \<times> 'd world) option" where
  "generate_translation_todo_ref a s =
     (let w1 = print (10 # py ''=== Files to Translate Summary ==='') (snd s);
          (ft, h1) = new_object (IntDict []) (fst s)
      in case get_method a (py ''es'') [] h1 of
           None \<Rightarrow> None
         | Some (es, h2) \<Rightarrow>
             (case count_files ft es h2 of
                None \<Rightarrow> None
              | Some h3 \<Rightarrow>
                  (case int_dict_at h3 ft of
                     None \<Rightarrow> None
                   | Some items \<Rightarrow> Some (h3, fold (\<lambda>fc. print (summary_line fc)) items w1))))"

section \<open>The scan in the words of the specification\<close>

text \<open>
  The record that one line of the search output gives, if it gives one: the line has
  three parts, its content has a comment, and the trimmed comment text has more than
  three characters. The detector has no part in it.
\<close>

definition line_record :: "pystr \<Rightarrow> comment option" where
  "line_record l =
     (case split_max 58 2 l of
        [filename, line_num, content] \<Rightarrow>
          (case re_search_comment content of
             None \<Rightarrow> None
           | Some g \<Rightarrow>
               if length (strip g) > 3
               then Some \<lparr>rec_file = filename, rec_line = line_num,
                          rec_content = strip content, rec_comment_text = strip g\<rparr>
               else None)
      | _ \<Rightarrow> None)"

text \<open>The bucket of a detector's answer.\<close>

fun bucket_of :: "detected \<Rightarrow> pystr" where
  "bucket_of (Detected lang) = lang"
| "bucket_of DetectRaises = py ''unknown''"

text \<open>
  The records of a scan in scan order, each with its bucket: the detector is asked once
  for each line that gives a record, in the order of the lines.
\<close>

fun labelled_records :: "'d detector \<Rightarrow> pystr list \<Rightarrow> 'd \<Rightarrow> (pystr \<times> comment) list" where
  "labelled_records det [] d = []"
| "labelled_records det (l # ls) d =
     (case line_record l of
        None \<Rightarrow> labelled_records det ls d
      | Some r \<Rightarrow>
          (case det d (rec_comment_text r) of
             (res, d') \<Rightarrow> (bucket_of res, r) # labelled_records det ls d'))"

section \<open>Sample inputs\<close>

text \<open>
  A detector for the examples: it knows one Spanish sentence, fails on a text of digits
  (which has no features to classify), and on any other text answers English or French
  in turn. Every call advances its generator.
\<close>

definition sample_detect :: "nat detector" where
  "sample_detect d t =
     (if t = py ''hola que tal'' then Detected (py ''es'')
      else if t = py ''1234 5678'' then DetectRaises
      else if even d then Detected (py ''en'') else Detected (py ''fr''),
      Suc d)"

text \<open>A detector that fails on every other call, whatever the text, and answers Spanish
  on the calls between.\<close>

definition flaky_detect :: "nat detector" where
  "flaky_detect d t = (if even d then DetectRaises else Detected (py ''es''), Suc d)"

text \<open>A search output of three lines, the first two the same, and a last empty line.\<close>

definition sample_output :: pystr where
  "sample_output =
     py ''a.rs:1:// hola que tal\<newline>a.rs:1:// hola que tal\<newline>b.rs:9:f(x); // 1234 5678\<newline>''"

text \<open>The \<open>str(e)\<close> of an \<open>OSError\<close> with a file name: the message, then the quoted path.\<close>

definition errno_message :: "string \<Rightarrow> pystr \<Rightarrow> pystr" where
  "errno_message m p = py m @ py '': '' @ 39 # p @ [39]"

text \<open>
  A file system with the directories \<open>src\<close> and \<open>locked\<close> and the regular file
  \<open>Cargo.toml\<close>. In \<open>src\<close> the search prints the sample output; in \<open>locked\<close> it
  fails with return code 2 and prints nothing; with \<open>Cargo.toml\<close> as working directory
  the process cannot be started.
\<close>

definition sample_env :: "nat env" where
  "sample_env =
     \<lparr>path_kind_of =
        (\<lambda>p. if p = py ''src'' \<or> p = py ''locked'' then Directory
             else if p = py ''Cargo.toml'' then RegularFile else Missing),
      rg =
        (\<lambda>cwd. if cwd = py ''src'' then Exited 0 sample_output
               else if cwd = py ''locked'' then Exited 2 []
               else if cwd = py ''Cargo.toml''
                 then LaunchFails
                        (NotADirectory (errno_message ''[Errno 20] Not a directory'' cwd))
               else LaunchFails
                      (NoSuchFile (errno_message ''[Errno 2] No such file or directory'' cwd))),
      detect = sample_detect\<rparr>"

definition sample_world :: "nat world" where
  "sample_world = \<lparr>stdout = [], run_calls = [], rng = 0\<rparr>"

definition hola :: comment where
  "hola = \<lparr>rec_file = py ''a.rs'', rec_line = py ''1'', rec_content = py ''// hola que tal'',
           rec_comment_text = py ''hola que tal''\<rparr>"

definition digits :: comment where
  "digits = \<lparr>rec_file = py ''b.rs'', rec_line = py ''9'',
             rec_content = py ''f(x); // 1234 5678'', rec_comment_text = py ''1234 5678''\<rparr>"

text \<open>A mapping with three Spanish records in two files, and one without the key \<open>es\<close>.\<close>

definition sample_buckets :: buckets where
  "sample_buckets =
     [(py ''en'', [digits]),
      (py ''es'', [hola, digits\<lparr>rec_comment_text := py ''uno dos tres''\<rparr>, hola])]"

definition english_buckets :: buckets where
  "english_buckets = [(py ''en'', [digits])]"


section \<open>Splitting\<close>

lemma split_max_2:
  "split_max sep 2 s =
     (case find_sep sep s of
        None \<Rightarrow> [s]
      | Some (a, r) \<Rightarrow> (case find_sep sep r of None \<Rightarrow> [a, r] | Some (b, c) \<Rightarrow> [a, b, c]))"
  by (simp add: numeral_2_eq_2 split: option.splits)

lemma find_sep_None: "find_sep sep s = None \<longleftrightarrow> sep \<notin> set s"
  by (induction s) (auto split: option.splits)

lemma find_sep_Some:
  "find_sep sep s = Some (a, r) \<Longrightarrow> s = a @ sep # r \<and> sep \<notin> set a"
  by (induction s arbitrary: a) (auto split: option.splits if_splits)

lemma find_sep_count:
  "find_sep sep s = Some (a, r) \<Longrightarrow> count_list s sep = Suc (count_list r sep)"
  by (induction s arbitrary: a) (auto split: option.splits if_splits)

lemma count_list_0: "count_list s sep = 0 \<longleftrightarrow> sep \<notin> set s"
  by (induction s) auto

text \<open>\<open>split\<close> cuts at every separator up to \<open>maxsplit\<close>, so it never gives more than
  \<open>maxsplit + 1\<close> parts.\<close>

lemma split_max_length: "length (split_max sep n s) = Suc (min n (count_list s sep))"
proof (induction n arbitrary: s)
  case 0
  show ?case by simp
next
  case (Suc n)
  show ?case
  proof (cases "find_sep sep s")
    case None
    then have "count_list s sep = 0" by (simp add: find_sep_None count_list_0)
    with None show ?thesis by simp
  next
    case (Some p)
    obtain a r where p: "p = (a, r)" by (cases p)
    from Some p have "count_list s sep = Suc (count_list r sep)" by (simp add: find_sep_count)
    with Some p Suc.IH [of r] show ?thesis by simp
  qed
qed

section \<open>Lines that leave the buckets alone\<close>

lemma scan_lines_append:
  "scan_lines det (xs @ ys) s = scan_lines det ys (scan_lines det xs s)"
  by (simp add: scan_lines_def)

lemma scan_lines_skip:
  assumes "\<And>t. scan_line det l t = t"
  shows "scan_lines det (xs @ l # ys) s = scan_lines det (xs @ ys) s"
  using assms by (simp add: scan_lines_def)

lemma scan_line_few_parts:
  assumes "length (split_max 58 2 l) < 3"
  shows "scan_line det l s = s"
proof -
  from assms have "\<And>a b c. split_max 58 2 l \<noteq> [a, b, c]" by auto
  then show ?thesis
    by (simp add: scan_line_def split: list.splits)
qed

lemma scan_line_short:
  assumes "split_max 58 2 l = [filename, line_num, content]"
      and "re_search_comment content = Some g"
      and "length (strip g) \<le> 3"
    shows "scan_line det l s = s"
  using assms by (simp add: scan_line_def)

lemma re_search_comment_None: "re_search_comment c = None \<longleftrightarrow> \<not> sublist [47, 47] c"
proof (induction c rule: re_search_comment.induct)
  case (1 a b cs)
  show ?case
  proof (cases "a = 47 \<and> b = 47")
    case True
    then have "sublist [47, 47] (a # b # cs)"
      by (simp add: sublist_Cons_right prefix_def)
    with True show ?thesis by simp
  next
    case False
    then have "sublist [47, 47] (a # b # cs) \<longleftrightarrow> sublist [47, 47] (b # cs)"
      by (auto simp: sublist_Cons_right[of _ a] prefix_def)
    with False 1 show ?thesis by auto
  qed
next
  case (2 a)
  show ?case by (auto simp: sublist_Cons_right prefix_def)
next
  case 3
  show ?case by simp
qed

lemma scan_line_no_delim:
  assumes "split_max 58 2 l = [filename, line_num, content]"
      and "\<not> sublist [47, 47] content"
    shows "scan_line det l s = s"
proof -
  from assms(2) have "re_search_comment content = None" by (simp add: re_search_comment_None)
  with assms(1) show ?thesis by (simp add: scan_line_def)
qed

text \<open>
  C3. A line whose extracted comment text, the trimmed text after the comment delimiter,
  has at most three characters adds no record to any bucket, whatever detector is in
  use and whatever it would answer: the line leaves the generator and the buckets as
  they were, and the scan of the whole output is the scan without that line.
\<close>

theorem short_comment_not_recorded:
  assumes "split_max 58 2 l = [filename, line_num, content]"
      and "re_search_comment content = Some g"
      and "length (strip g) \<le> 3"
    shows "scan_line det l s = s \<and>
           scan_lines det (before @ l # after) s = scan_lines det (before @ after) s"
proof -
  from assms have "\<And>t. scan_line det l t = t" by (rule scan_line_short)
  then show ?thesis by (simp add: scan_lines_skip)
qed

theorem short_comment_not_recorded_witness:
  "split_max 58 2 (py ''a.rs:7:x = 1; // ok'') = [py ''a.rs'', py ''7'', py ''x = 1; // ok''] \<and>
   re_search_comment (py ''x = 1; // ok'') = Some (py ''ok'') \<and>
   length (strip (py ''ok'')) \<le> 3 \<and>
   scan_line sample_detect (py ''a.rs:7:x = 1; // ok'') (0, []) = (0, [])"
  using short_comment_not_recorded
    [of "py ''a.rs:7:x = 1; // ok''" "py ''a.rs''" "py ''7''" "py ''x = 1; // ok''" "py ''ok''"
        sample_detect "(0, [])" "[]" "[]"]
  by (simp add: py_def split_max_2 strip_def isspace_def)

text \<open>
  C6. A line with fewer than two field delimiters (code point 58, the colon) does not
  split into three parts and is skipped: it produces no record and no exception (the
  step returns the state it was given), and the lines after it are processed as if it
  had not been there.
\<close>

theorem malformed_line_skipped:
  assumes "count_list l 58 < 2"
  shows "scan_line det l s = s \<and>
         scan_lines det (before @ l # after) s = scan_lines det (before @ after) s"
proof -
  from assms have "length (split_max 58 2 l) < 3" by (simp add: split_max_length)
  then have "\<And>t. scan_line det l t = t" by (rule scan_line_few_parts)
  then show ?thesis by (simp add: scan_lines_skip)
qed

theorem malformed_line_skipped_witness:
  "count_list (py ''src/lib.rs: binary file matches // maybe'') 58 < 2 \<and>
   scan_lines sample_detect
     [py ''src/lib.rs: binary file matches // maybe'', py ''a.rs:1:// hola que tal''] (0, []) =
   scan_lines sample_detect [py ''a.rs:1:// hola que tal''] (0, [])"
  using malformed_line_skipped
    [of "py ''src/lib.rs: binary file matches // maybe''" sample_detect "(0, [])" "[]"
        "[py ''a.rs:1:// hola que tal'']"]
  by (simp add: py_def)

text \<open>
  C8. A line whose content part has no occurrence of the two-character comment
  delimiter (two code points 47) leaves every bucket, the \<open>unknown\<close> one included, as it
  was: no record of that line is in the mapping that is returned.
\<close>

theorem line_without_delimiter_not_recorded:
  assumes "split_max 58 2 l = [filename, line_num, content]"
      and "\<not> sublist [47, 47] content"
    shows "scan_line det l s = s \<and>
           scan_lines det (before @ l # after) s = scan_lines det (before @ after) s"
proof -
  from assms have "\<And>t. scan_line det l t = t" by (rule scan_line_no_delim)
  then show ?thesis by (simp add: scan_lines_skip)
qed

theorem line_without_delimiter_not_recorded_witness:
  "split_max 58 2 (py ''http://a.rs:3:let ratio = a / b / c;'') =
     [py ''http'', py ''//a.rs'', py ''3:let ratio = a / b / c;''] \<and>
   \<not> sublist [47, 47] (py ''3:let ratio = a / b / c;'') \<and>
   scan_line sample_detect (py ''http://a.rs:3:let ratio = a / b / c;'') (0, []) = (0, [])"
  using line_without_delimiter_not_recorded
    [of "py ''http://a.rs:3:let ratio = a / b / c;''" "py ''http''" "py ''//a.rs''"
        "py ''3:let ratio = a / b / c;''" sample_detect "(0, [])" "[]" "[]"]
    re_search_comment_None [of "py ''3:let ratio = a / b / c;''"]
  by (simp add: py_def split_max_2)

section \<open>Parsing a well-formed line\<close>

lemma strip_Nil: "strip s = [] \<longleftrightarrow> (\<forall>c\<in>set s. isspace c)"
proof
  assume "strip s = []"
  then have "\<forall>c\<in>set (dropWhile isspace s). isspace c"
    by (simp add: strip_def dropWhile_eq_Nil_conv)
  then have "dropWhile isspace s = []"
    using hd_dropWhile [of isspace s] hd_in_set [of "dropWhile isspace s"] by blast
  then show "\<forall>c\<in>set s. isspace c" by (simp add: dropWhile_eq_Nil_conv)
next
  assume "\<forall>c\<in>set s. isspace c"
  then show "strip s = []" by (auto simp: strip_def dest: set_dropWhileD)
qed

lemma not_isspace_colon: "\<not> isspace 58"
  by (simp add: isspace_def)

lemma strip_dropWhile: "strip (dropWhile isspace s) = strip s"
  by (simp add: strip_def)

lemma split_max_three:
  assumes "2 \<le> count_list l sep"
  shows "\<exists>a b c. split_max sep 2 l = [a, b, c] \<and> l = a @ sep # b @ sep # c \<and>
                 sep \<notin> set a \<and> sep \<notin> set b"
proof -
  from assms have "sep \<in> set l" using count_list_0 [of l sep] by auto
  then obtain a r where ar: "find_sep sep l = Some (a, r)"
    using find_sep_None [of sep l] by (cases "find_sep sep l") auto
  then have l: "l = a @ sep # r" "sep \<notin> set a" by (auto dest: find_sep_Some)
  from ar assms have "1 \<le> count_list r sep" by (auto dest: find_sep_count)
  then have "sep \<in> set r" using count_list_0 [of r sep] by auto
  then obtain b c where bc: "find_sep sep r = Some (b, c)"
    using find_sep_None [of sep r] by (cases "find_sep sep r") auto
  then have r: "r = b @ sep # c" "sep \<notin> set b" by (auto dest: find_sep_Some)
  from ar bc have "split_max sep 2 l = [a, b, c]" by (simp add: split_max_2)
  with l r show ?thesis by auto
qed

lemma split_all_no_sep: "l \<in> set (split_all sep s) \<Longrightarrow> sep \<notin> set l"
proof (induction s arbitrary: l)
  case Nil
  then show ?case by simp
next
  case (Cons c cs)
  show ?case
  proof (cases "split_all sep cs")
    case Nil
    with Cons show ?thesis by (auto split: if_splits)
  next
    case (Cons w ws)
    with Cons.prems Cons.IH show ?thesis by (auto split: if_splits)
  qed
qed

lemma re_search_comment_first:
  assumes "\<not> sublist [47, 47] (before @ [47])"
  shows "re_search_comment (before @ [47, 47] @ rest) =
           Some (takeWhile (\<lambda>c. c \<noteq> 10) (dropWhile isspace rest))"
  using assms
proof (induction before)
  case Nil
  show ?case by simp
next
  case (Cons a before)
  from Cons.prems have tl: "\<not> sublist [47, 47] (before @ [47])"
    by (simp add: sublist_Cons_right)
  show ?case
  proof (cases before)
    case Nil
    with Cons.prems have "a \<noteq> 47" by (auto simp: sublist_Cons_right prefix_def)
    with Nil show ?thesis by simp
  next
    case (Cons b bs)
    with Cons.prems have "\<not> (a = 47 \<and> b = 47)"
      by (auto simp: sublist_Cons_right prefix_def)
    with Cons Cons.IH [OF tl] show ?thesis by auto
  qed
qed

lemma takeWhile_no_newline: "10 \<notin> set s \<Longrightarrow> takeWhile (\<lambda>c. c \<noteq> (10::nat)) s = s"
  using takeWhile_eq_all_conv [of "\<lambda>c. c \<noteq> (10::nat)" s] by auto

section \<open>The loop body and the record of a line\<close>

lemma scan_line_record:
  "scan_line det l (d, b) =
     (case line_record l of
        None \<Rightarrow> (d, b)
      | Some r \<Rightarrow> (case det d (rec_comment_text r) of (res, d') \<Rightarrow> (d', append_to (bucket_of res) r b)))"
proof (cases "strip l = []")
  case True
  then have "58 \<notin> set l" using strip_Nil [of l] not_isspace_colon by auto
  then have "find_sep 58 l = None" by (simp add: find_sep_None)
  then have "split_max 58 2 l = [l]" by (simp add: split_max_2)
  with True show ?thesis by (simp add: scan_line_def line_record_def)
next
  case False
  then show ?thesis
    by (auto simp: scan_line_def line_record_def Let_def
             split: list.splits option.splits prod.splits detected.splits)
qed

lemma line_record_Some:
  assumes "split_max 58 2 l = [filename, line_num, content]"
      and "re_search_comment content = Some g"
      and "3 < length (strip g)"
    shows "line_record l = Some \<lparr>rec_file = filename, rec_line = line_num,
                                rec_content = strip content, rec_comment_text = strip g\<rparr>"
  using assms by (simp add: line_record_def)

lemma dict_get_Nil: "dict_get k dflt [] = dflt"
  by (simp add: dict_get_def)

lemma dict_get_append_to:
  "dict_get k [] (append_to k' c b) = (if k = k' then dict_get k [] b @ [c] else dict_get k [] b)"
  by (induction b) (auto simp: dict_get_def)

lemma scan_lines_buckets:
  "dict_get k [] (snd (scan_lines det ls (d, b))) =
     dict_get k [] b @ map snd (filter (\<lambda>p. fst p = k) (labelled_records det ls d))"
proof (induction ls arbitrary: d b)
  case Nil
  show ?case by (simp add: scan_lines_def)
next
  case (Cons l ls)
  have step: "scan_lines det (l # ls) (d, b) = scan_lines det ls (scan_line det l (d, b))"
    by (simp add: scan_lines_def)
  show ?case
  proof (cases "line_record l")
    case None
    with Cons.IH [of d b] step show ?thesis by (simp add: scan_line_record)
  next
    case (Some r)
    obtain res d' where det: "det d (rec_comment_text r) = (res, d')"
      by (cases "det d (rec_comment_text r)")
    with Some step Cons.IH [of d' "append_to (bucket_of res) r b"] show ?thesis
      by (simp add: scan_line_record dict_get_append_to)
  qed
qed

lemma labelled_records_records:
  "map snd (labelled_records det ls d) = List.map_filter line_record ls"
proof (induction ls arbitrary: d)
  case Nil
  show ?case by (simp add: map_filter_simps)
next
  case (Cons l ls)
  then show ?case
    by (auto simp: map_filter_simps split: option.splits prod.splits)
qed

section \<open>What \<open>get_rust_comments\<close> returns\<close>

lemma get_rust_comments_exited:
  assumes "os_path_exists e directory" and "rg e directory = Exited rc out"
  shows "get_rust_comments e directory w =
           (Inr (snd (scan_lines (detect e) (split_all 10 out) (rng w, []))),
            w\<lparr>run_calls := run_calls w @ [directory],
              rng := fst (scan_lines (detect e) (split_all 10 out) (rng w, []))\<rparr>)"
  using assms
  by (simp add: get_rust_comments_def subprocess_run_def Let_def split: prod.splits)

lemma get_rust_comments_missing:
  assumes "\<not> os_path_exists e directory"
  shows "get_rust_comments e directory w =
           (Inl (FileNotFoundError (py ''Directory not found: '' @ directory)), w)"
  using assms by (simp add: get_rust_comments_def)

lemma get_rust_comments_launch_fails:
  assumes "os_path_exists e directory" and "rg e directory = LaunchFails f"
  shows "get_rust_comments e directory w =
           (Inl (raised_by f), w\<lparr>run_calls := run_calls w @ [directory]\<rparr>)"
  using assms
  by (simp add: get_rust_comments_def subprocess_run_def Let_def)

lemma get_rust_comments_never_CalledProcessError:
  "fst (get_rust_comments e directory w) \<noteq> Inl (CalledProcessError rc)"
proof (cases "os_path_exists e directory")
  case False
  then show ?thesis by (simp add: get_rust_comments_missing)
next
  case True
  show ?thesis
  proof (cases "rg e directory")
    case (Exited rc' out)
    with True show ?thesis by (simp add: get_rust_comments_exited)
  next
    case (LaunchFails f)
    with True show ?thesis by (cases f) (simp_all add: get_rust_comments_launch_fails)
  qed
qed

lemmas sample_defs =
  sample_env_def sample_world_def sample_output_def sample_detect_def errno_message_def
  hola_def digits_def py_def

lemmas scan_defs =
  get_rust_comments_def os_path_exists_def subprocess_run_def scan_lines_def scan_line_def
  split_max_2 strip_def isspace_def Let_def

text \<open>
  C7. A well-formed line of the search output (one with at least two colons) splits into
  exactly three parts at its first two colons: the file and the line number hold no
  colon, and every further colon stays in the content. Where the content has a comment
  delimiter, the pattern finds the first one, the comment text is the text after it with
  the white space around it trimmed, and that text is the \<open>comment_text\<close> of the record
  the line adds (when it is longer than three characters), next to the file, the line
  number and the trimmed content.
\<close>

theorem well_formed_line_parsed:
  assumes "l \<in> set (split_all 10 out)" and "2 \<le> count_list l 58"
  shows "\<exists>filename line_num content.
           split_max 58 2 l = [filename, line_num, content] \<and>
           l = filename @ 58 # line_num @ 58 # content \<and>
           58 \<notin> set filename \<and> 58 \<notin> set line_num \<and>
           (\<forall>before rest.
              content = before @ [47, 47] @ rest \<and> \<not> sublist [47, 47] (before @ [47]) \<longrightarrow>
              (\<exists>g. re_search_comment content = Some g \<and> strip g = strip rest) \<and>
              (3 < length (strip rest) \<longrightarrow>
                 (\<forall>det d b. \<exists>k d'.
                    scan_line det l (d, b) =
                      (d', append_to k
                             \<lparr>rec_file = filename, rec_line = line_num,
                              rec_content = strip content,
                              rec_comment_text = strip rest\<rparr> b))))"
proof -
  from assms(2) obtain filename line_num content where
    parts: "split_max 58 2 l = [filename, line_num, content]"
      "l = filename @ 58 # line_num @ 58 # content"
      "58 \<notin> set filename" "58 \<notin> set line_num"
    using split_max_three [of l 58] by blast
  from assms(1) have "10 \<notin> set l" by (rule split_all_no_sep)
  with parts(2) have nl: "10 \<notin> set content" by simp
  have found: "re_search_comment content = Some (dropWhile isspace rest)"
    if "content = before @ [47, 47] @ rest" "\<not> sublist [47, 47] (before @ [47])"
    for before rest
  proof -
    from that(1) nl have "10 \<notin> set (dropWhile isspace rest)"
      by (auto dest: set_dropWhileD)
    then have "takeWhile (\<lambda>c. c \<noteq> 10) (dropWhile isspace rest) = dropWhile isspace rest"
      by (rule takeWhile_no_newline)
    with that re_search_comment_first [of before rest] show ?thesis by simp
  qed
  have rec: "\<exists>k d'. scan_line det l (d, b) =
               (d', append_to k \<lparr>rec_file = filename, rec_line = line_num,
                                rec_content = strip content,
                                rec_comment_text = strip rest\<rparr> b)"
    if "content = before @ [47, 47] @ rest" "\<not> sublist [47, 47] (before @ [47])"
       "3 < length (strip rest)"
    for before rest and det :: "'a detector" and d b
  proof -
    from that(1,2) have g: "re_search_comment content = Some (dropWhile isspace rest)"
      by (rule found)
    from that(3) have "3 < length (strip (dropWhile isspace rest))"
      by (simp add: strip_dropWhile)
    with parts(1) g have "line_record l =
        Some \<lparr>rec_file = filename, rec_line = line_num, rec_content = strip content,
              rec_comment_text = strip (dropWhile isspace rest)\<rparr>"
      by (rule line_record_Some)
    then show ?thesis
      by (cases "det d (strip rest)") (auto simp: scan_line_record strip_dropWhile)
  qed
  from parts found rec show ?thesis
    by (metis strip_dropWhile)
qed

theorem well_formed_line_parsed_witness:
  "py ''b.rs:9:f(x); // 12:34'' \<in> set (split_all 10 (py ''b.rs:9:f(x); // 12:34\<newline>'')) \<and>
   2 \<le> count_list (py ''b.rs:9:f(x); // 12:34'') 58 \<and>
   split_max 58 2 (py ''b.rs:9:f(x); // 12:34'') = [py ''b.rs'', py ''9'', py ''f(x); // 12:34''] \<and>
   py ''f(x); // 12:34'' = py ''f(x); '' @ [47, 47] @ py '' 12:34'' \<and>
   \<not> sublist [47, 47] (py ''f(x); '' @ [47]) \<and>
   re_search_comment (py ''f(x); // 12:34'') = Some (py ''12:34'') \<and>
   strip (py '' 12:34'') = py ''12:34''"
  using well_formed_line_parsed
    [of "py ''b.rs:9:f(x); // 12:34''" "py ''b.rs:9:f(x); // 12:34\<newline>''"]
    re_search_comment_None [of "py ''f(x); '' @ [47]"]
  by (simp add: py_def split_max_2 strip_def isspace_def)

text \<open>
  C9. In the mapping that \<open>get_rust_comments\<close> returns, the bucket of every key holds
  the records of that key in the order of their lines in the search output: it is the
  sequence of all records in scan order, cut down to that key. Nothing is deduplicated:
  the records in scan order are the records of the lines, one for each line that gives
  a record, so a line that occurs twice gives two records.
\<close>

theorem buckets_follow_scan_order:
  assumes "os_path_exists e directory" and "rg e directory = Exited rc out"
  shows "\<exists>comments_by_lang w'.
           get_rust_comments e directory w = (Inr comments_by_lang, w') \<and>
           (\<forall>k. dict_get k [] comments_by_lang =
                  map snd (filter (\<lambda>p. fst p = k)
                     (labelled_records (detect e) (split_all 10 out) (rng w)))) \<and>
           map snd (labelled_records (detect e) (split_all 10 out) (rng w)) =
             List.map_filter line_record (split_all 10 out)"
  using assms
  by (simp add: get_rust_comments_exited scan_lines_buckets labelled_records_records dict_get_Nil)

theorem buckets_follow_scan_order_witness:
  "os_path_exists sample_env (py ''src'') \<and>
   rg sample_env (py ''src'') = Exited 0 sample_output \<and>
   fst (get_rust_comments sample_env (py ''src'') sample_world) =
     Inr [(py ''es'', [hola, hola]), (py ''unknown'', [digits])]"
  using buckets_follow_scan_order [of sample_env "py ''src''" 0 sample_output sample_world]
  by (simp add: sample_defs scan_defs)

lemma scan_lines_Cons:
  "scan_lines det (l # ls) s = scan_lines det ls (scan_line det l s)"
  by (simp add: scan_lines_def)

lemma record_stays_in_bucket:
  "r \<in> set (dict_get k [] b) \<Longrightarrow> r \<in> set (dict_get k [] (snd (scan_lines det ls (d, b))))"
  by (simp add: scan_lines_buckets)

text \<open>
  C5. When the call that classifies a comment text that passed the length filter fails,
  that step of the scan appends the record to the bucket \<open>unknown\<close>: the step is
  exactly this append, in the generator state the failed call leaves. The record has the
  file, line, content and comment text of the record that the step appends to the
  bucket of a language when the call succeeds. The failure does not leave the function:
  the scan goes on with the lines after it, the record stays in \<open>unknown\<close>, and
  \<open>get_rust_comments\<close> returns its mapping with the record in that bucket.
\<close>

theorem classification_failure_goes_to_unknown:
  assumes "split_max 58 2 l = [filename, line_num, content]"
      and "re_search_comment content = Some g"
      and "3 < length (strip g)"
      and "det d (strip g) = (DetectRaises, d')"
    shows "scan_line det l (d, b) =
             (d', append_to (py ''unknown'')
                    \<lparr>rec_file = filename, rec_line = line_num,
                     rec_content = strip content, rec_comment_text = strip g\<rparr> b) \<and>
           (\<forall>det' lang d''.
              det' d (strip g) = (Detected lang, d'') \<longrightarrow>
              scan_line det' l (d, b) =
                (d'', append_to lang
                        \<lparr>rec_file = filename, rec_line = line_num,
                         rec_content = strip content, rec_comment_text = strip g\<rparr> b)) \<and>
           (\<forall>after.
              \<lparr>rec_file = filename, rec_line = line_num, rec_content = strip content,
               rec_comment_text = strip g\<rparr>
                \<in> set (dict_get (py ''unknown'') []
                         (snd (scan_lines det (l # after) (d, b))))) \<and>
           (\<forall>e directory w rc out before after.
              detect e = det \<and> os_path_exists e directory \<and>
              rg e directory = Exited rc out \<and>
              split_all 10 out = before @ l # after \<and>
              scan_lines det before (rng w, []) = (d, b) \<longrightarrow>
              (\<exists>comments_by_lang w'.
                 get_rust_comments e directory w = (Inr comments_by_lang, w') \<and>
                 \<lparr>rec_file = filename, rec_line = line_num, rec_content = strip content,
                  rec_comment_text = strip g\<rparr>
                   \<in> set (dict_get (py ''unknown'') [] comments_by_lang)))"
proof -
  let ?r = "\<lparr>rec_file = filename, rec_line = line_num, rec_content = strip content,
             rec_comment_text = strip g\<rparr>"
  have r: "line_record l = Some ?r" using assms(1-3) by (rule line_record_Some)
  have step: "scan_line det l (d, b) = (d', append_to (py ''unknown'') ?r b)"
    using r assms(4) by (simp add: scan_line_record)
  have success: "scan_line det' l (d, b) = (d'', append_to lang ?r b)"
    if "det' d (strip g) = (Detected lang, d'')" for det' :: "'a detector" and lang d''
    using that r by (simp add: scan_line_record)
  have "?r \<in> set (dict_get (py ''unknown'') [] (append_to (py ''unknown'') ?r b))"
    by (simp add: dict_get_append_to)
  then have stays: "?r \<in> set (dict_get (py ''unknown'') []
                      (snd (scan_lines det (l # after) (d, b))))" for after
    unfolding scan_lines_Cons step by (rule record_stays_in_bucket)
  have returned: "\<exists>comments_by_lang w'.
       get_rust_comments e directory w = (Inr comments_by_lang, w') \<and>
       ?r \<in> set (dict_get (py ''unknown'') [] comments_by_lang)"
    if "detect e = det" "os_path_exists e directory" "rg e directory = Exited rc out"
       "split_all 10 out = before @ l # after" "scan_lines det before (rng w, []) = (d, b)"
    for e :: "'a env" and directory and w :: "'a world" and rc out before after
  proof -
    have "scan_lines det (split_all 10 out) (rng w, []) = scan_lines det (l # after) (d, b)"
      using that(4,5) by (simp add: scan_lines_append)
    with stays [of after]
    have "?r \<in> set (dict_get (py ''unknown'') []
                  (snd (scan_lines (detect e) (split_all 10 out) (rng w, []))))"
      using that(1) by simp
    with that(2,3) show ?thesis by (simp add: get_rust_comments_exited)
  qed
  from step success stays returned show ?thesis by blast
qed

text \<open>
  With the detector that fails on every other call, the first line of the sample output
  goes to \<open>unknown\<close>, and the same line, classified by the next call, to \<open>es\<close>.
\<close>

theorem classification_failure_goes_to_unknown_witness:
  "split_max 58 2 (py ''a.rs:1:// hola que tal'') =
     [py ''a.rs'', py ''1'', py ''// hola que tal''] \<and>
   re_search_comment (py ''// hola que tal'') = Some (py ''hola que tal'') \<and>
   3 < length (strip (py ''hola que tal'')) \<and>
   flaky_detect 0 (strip (py ''hola que tal'')) = (DetectRaises, 1) \<and>
   flaky_detect 1 (strip (py ''hola que tal'')) = (Detected (py ''es''), 2) \<and>
   split_all 10 sample_output =
     [] @ py ''a.rs:1:// hola que tal'' #
       [py ''a.rs:1:// hola que tal'', py ''b.rs:9:f(x); // 1234 5678'', []] \<and>
   scan_lines flaky_detect [] (rng sample_world, []) = (0, []) \<and>
   scan_line flaky_detect (py ''a.rs:1:// hola que tal'') (0, []) =
     (1, [(py ''unknown'', [hola])]) \<and>
   fst (get_rust_comments (sample_env\<lparr>detect := flaky_detect\<rparr>) (py ''src'') sample_world) =
     Inr [(py ''unknown'', [hola, digits]), (py ''es'', [hola])]"
  using classification_failure_goes_to_unknown
    [where l = "py ''a.rs:1:// hola que tal''" and filename = "py ''a.rs''"
       and line_num = "py ''1''" and content = "py ''// hola que tal''"
       and g = "py ''hola que tal''" and det = flaky_detect and d = 0 and d' = 1 and b = "[]"]
  by (simp add: sample_defs scan_defs flaky_detect_def)

section \<open>The output functions\<close>

lemma stdout_print: "stdout (print s w) = stdout w @ [s]"
  by (simp add: print_def)

lemma stdout_fold_print:
  "stdout (fold (\<lambda>x. print (f x)) xs w) = stdout w @ map f xs"
  by (induction xs arbitrary: w) (simp_all add: stdout_print)

lemma increment_keys:
  "map fst (increment k m) = (if k \<in> fst ` set m then map fst m else map fst m @ [k])"
proof (induction m)
  case Nil
  show ?case by simp
next
  case (Cons p m)
  obtain k' n where p: "p = (k', n)" by (cases p)
  show ?case
  proof (cases "k' = k")
    case True
    with p show ?thesis by simp
  next
    case False
    with p Cons show ?thesis by (cases "k \<in> fst ` set m") simp_all
  qed
qed

lemma increment_key_set: "fst ` set (increment k m) = insert k (fst ` set m)"
proof -
  have "set (map fst (increment k m)) = insert k (fst ` set m)"
    unfolding increment_keys by auto
  then show ?thesis by simp
qed

lemma increment_distinct: "distinct (map fst m) \<Longrightarrow> distinct (map fst (increment k m))"
  unfolding increment_keys by simp

lemma map_of_increment:
  "map_of (increment k m) k' =
     (if k' = k then Some ((case map_of m k of None \<Rightarrow> 0 | Some n \<Rightarrow> n) + 1) else map_of m k')"
  by (induction m) auto

lemma fold_increment_keys:
  "fst ` set (fold (\<lambda>c. increment (rec_file c)) cs m) = fst ` set m \<union> rec_file ` set cs"
  by (induction cs arbitrary: m) (simp_all add: increment_key_set)

lemma fold_increment_distinct:
  "distinct (map fst m) \<Longrightarrow> distinct (map fst (fold (\<lambda>c. increment (rec_file c)) cs m))"
  by (induction cs arbitrary: m) (simp_all add: increment_distinct)

lemma fold_increment_count:
  "(case map_of (fold (\<lambda>c. increment (rec_file c)) cs m) f of None \<Rightarrow> 0 | Some n \<Rightarrow> n) =
     (case map_of m f of None \<Rightarrow> 0 | Some n \<Rightarrow> n) + int (length (filter (\<lambda>c. rec_file c = f) cs))"
  by (induction cs arbitrary: m) (simp_all add: map_of_increment)

lemma files_to_translate_count:
  assumes "(f, n) \<in> set (files_to_translate m)"
  shows "n = int (length (filter (\<lambda>c. rec_file c = f) (dict_get (py ''es'') [] m)))"
proof -
  have "distinct (map fst (files_to_translate m))"
    by (simp add: files_to_translate_def fold_increment_distinct)
  with assms have "map_of (files_to_translate m) f = Some n" by simp
  with fold_increment_count [of "dict_get (py ''es'') [] m" "[]" f] show ?thesis
    by (simp add: files_to_translate_def)
qed

text \<open>
  C4. For every mapping, the translation summary prints its header and then one line
  for each entry of the count table, with the file and the count in it. The files of the
  table are exactly the files of the records in the bucket \<open>es\<close>, each listed once, and
  the count of a file is the number of records of that bucket that bear the file.
\<close>

theorem summary_counts_match_spanish_bucket:
  "stdout (snd (generate_translation_todo m w)) =
     stdout w @ (10 # py ''=== Files to Translate Summary ==='') #
       map (\<lambda>fc. 10 # fst fc @ py '': '' @ str_int (snd fc) @ py '' Spanish comments'')
         (files_to_translate m) \<and>
   distinct (map fst (files_to_translate m)) \<and>
   set (map fst (files_to_translate m)) = rec_file ` set (dict_get (py ''es'') [] m) \<and>
   (\<forall>(f, n) \<in> set (files_to_translate m).
      n = int (length (filter (\<lambda>c. rec_file c = f) (dict_get (py ''es'') [] m))))"
proof -
  have out: "stdout (snd (generate_translation_todo m w)) =
     stdout w @ (10 # py ''=== Files to Translate Summary ==='') #
       map summary_line (files_to_translate m)"
    by (simp add: generate_translation_todo_def stdout_fold_print stdout_print)
  have sl: "summary_line = (\<lambda>fc. 10 # fst fc @ py '': '' @ str_int (snd fc) @ py '' Spanish comments'')"
    by (rule ext) (simp add: summary_line_def)
  have keys: "set (map fst (files_to_translate m)) = rec_file ` set (dict_get (py ''es'') [] m)"
    by (simp add: files_to_translate_def fold_increment_keys)
  have dist: "distinct (map fst (files_to_translate m))"
    by (simp add: files_to_translate_def fold_increment_distinct)
  have counts: "\<forall>(f, n) \<in> set (files_to_translate m).
      n = int (length (filter (\<lambda>c. rec_file c = f) (dict_get (py ''es'') [] m)))"
    using files_to_translate_count [of _ _ m] by blast
  from out sl have "stdout (snd (generate_translation_todo m w)) =
     stdout w @ (10 # py ''=== Files to Translate Summary ==='') #
       map (\<lambda>fc. 10 # fst fc @ py '': '' @ str_int (snd fc) @ py '' Spanish comments'')
         (files_to_translate m)" by simp
  with keys dist counts show ?thesis by blast
qed

theorem summary_counts_match_spanish_bucket_witness:
  "files_to_translate sample_buckets = [(py ''a.rs'', 2), (py ''b.rs'', 1)] \<and>
   stdout (snd (generate_translation_todo sample_buckets sample_world)) =
     [10 # py ''=== Files to Translate Summary ==='',
      10 # py ''a.rs: 2 Spanish comments'', 10 # py ''b.rs: 1 Spanish comments''] \<and>
   length (filter (\<lambda>c. rec_file c = py ''a.rs'') (dict_get (py ''es'') [] sample_buckets)) = 2"
  using summary_counts_match_spanish_bucket [of sample_buckets sample_world]
  by (simp add: sample_buckets_def sample_defs files_to_translate_def dict_get_def
        str_int_def str_nat.simps)

lemma list_dict_at_valid: "list_dict_at h a = Some m \<Longrightarrow> a < length h \<and> h ! a = ListDict m"
  by (auto simp: list_dict_at_def split: if_splits obj.splits)

lemma list_dict_at_append: "list_dict_at h a = Some m \<Longrightarrow> list_dict_at (h @ h') a = Some m"
  by (auto simp: list_dict_at_def nth_append split: if_splits)

lemma int_dict_at_new: "int_dict_at (h @ [IntDict c]) (length h) = Some c"
  by (simp add: int_dict_at_def)

lemma get_method_reads:
  "list_dict_at h a = Some m \<Longrightarrow> get_method a k dflt h = Some (dict_get k dflt m, h)"
  by (simp add: get_method_def)

text \<open>The subscript is the operation that would change the mapping: it inserts a missing key.\<close>

lemma subscript_inserts_missing_key:
  assumes "list_dict_at h a = Some m" and "map_of m k = None"
  shows "\<exists>h'. subscript a k h = Some ([], h') \<and> list_dict_at h' a = Some (m @ [(k, [])]) \<and>
              list_dict_at h' a \<noteq> Some m"
  using assms list_dict_at_valid [OF assms(1)]
  by (simp add: subscript_def list_dict_at_def)

text \<open>The counting loop writes to the object at \<open>ft\<close> and to no other.\<close>

lemma count_files_new:
  "count_files (length h) cs (h @ [IntDict c]) =
     Some (h @ [IntDict (fold (\<lambda>c. increment (rec_file c)) cs c)])"
proof (induction cs arbitrary: c)
  case Nil
  show ?case by simp
next
  case (Cons x cs)
  have "add_one (length h) (rec_file x) (h @ [IntDict c]) =
          Some (h @ [IntDict (increment (rec_file x) c)])"
    by (simp add: add_one_def int_dict_at_new)
  with Cons.IH [of "increment (rec_file x) c"] show ?case by simp
qed

lemma print_comments_by_language_ref_result:
  assumes "list_dict_at h a = Some m"
  shows "print_comments_by_language_ref a (h, w) =
           Some (h, snd (print_comments_by_language m w))"
  using assms
  by (simp add: print_comments_by_language_ref_def print_comments_by_language_def
        get_method_reads)

lemma generate_translation_todo_ref_result:
  assumes "list_dict_at h a = Some m"
  shows "generate_translation_todo_ref a (h, w) =
           Some (h @ [IntDict (files_to_translate m)], snd (generate_translation_todo m w))"
proof -
  have m: "list_dict_at (h @ [IntDict []]) a = Some m"
    using assms by (rule list_dict_at_append)
  show ?thesis
    by (simp add: generate_translation_todo_ref_def generate_translation_todo_def
          new_object_def get_method_reads [OF m] count_files_new int_dict_at_new
          files_to_translate_def)
qed

text \<open>
  C10. The two output functions only read the mapping. Called with a reference to it,
  \<open>print_comments_by_language\<close> returns the store as it was, and
  \<open>generate_translation_todo\<close> returns the store with one new object after the old
  ones, its own table of counts: every object that was there is as it was, and behind
  the reference is the same mapping, with the same keys in the same order and the same
  records, whether or not it has the key \<open>es\<close>. The same holds of the one followed by
  the other, as \<open>main\<close> calls them. What they print is what the functions on the value
  of the mapping print.
\<close>

theorem output_leaves_mapping_unchanged:
  assumes "list_dict_at h a = Some m"
  shows "print_comments_by_language_ref a (h, w :: 'd world) =
           Some (h, snd (print_comments_by_language m w)) \<and>
         (\<exists>h' w''. generate_translation_todo_ref a (h, w' :: 'd world) = Some (h', w'') \<and>
                   take (length h) h' = h \<and> length h' = Suc (length h) \<and>
                   list_dict_at h' a = Some m \<and>
                   w'' = snd (generate_translation_todo m w')) \<and>
         (\<exists>h1 w1 h2 w2.
            print_comments_by_language_ref a (h, w) = Some (h1, w1) \<and>
            generate_translation_todo_ref a (h1, w1) = Some (h2, w2) \<and>
            list_dict_at h1 a = Some m \<and> list_dict_at h2 a = Some m \<and>
            take (length h) h2 = h)"
proof -
  have p: "print_comments_by_language_ref a (h, w) =
             Some (h, snd (print_comments_by_language m w))"
    using assms by (rule print_comments_by_language_ref_result)
  have g: "generate_translation_todo_ref a (h, v) =
             Some (h @ [IntDict (files_to_translate m)], snd (generate_translation_todo m v))"
    for v :: "'d world"
    using assms by (rule generate_translation_todo_ref_result)
  have kept: "list_dict_at (h @ [IntDict (files_to_translate m)]) a = Some m"
    using assms by (rule list_dict_at_append)
  from p g [of w'] g [of "snd (print_comments_by_language m w)"] kept assms
  show ?thesis by simp
qed

theorem output_leaves_mapping_unchanged_witness:
  "list_dict_at [ListDict english_buckets] 0 = Some english_buckets \<and>
   map_of english_buckets (py ''es'') = None \<and>
   print_comments_by_language_ref 0 ([ListDict english_buckets], sample_world) =
     Some ([ListDict english_buckets],
           sample_world\<lparr>stdout := [10 # py ''=== Spanish Comments (es) ==='']\<rparr>) \<and>
   generate_translation_todo_ref 0 ([ListDict english_buckets], sample_world) =
     Some ([ListDict english_buckets, IntDict []],
           sample_world\<lparr>stdout := [10 # py ''=== Files to Translate Summary ==='']\<rparr>)"
  using output_leaves_mapping_unchanged
    [where h = "[ListDict english_buckets]" and a = 0 and m = english_buckets
       and w = sample_world and w' = sample_world]
  by (simp add: english_buckets_def sample_defs list_dict_at_def int_dict_at_def
        print_comments_by_language_ref_def generate_translation_todo_ref_def
        get_method_def new_object_def dict_get_def print_def)

lemma output_without_spanish_bucket:
  "map_of english_buckets (py ''es'') = None \<and>
   print_comments_by_language english_buckets sample_world =
     (english_buckets, sample_world\<lparr>stdout := [10 # py ''=== Spanish Comments (es) ==='']\<rparr>) \<and>
   generate_translation_todo english_buckets sample_world =
     (english_buckets,
      sample_world\<lparr>stdout := [10 # py ''=== Files to Translate Summary ==='']\<rparr>)"
  by (simp add: english_buckets_def sample_defs print_comments_by_language_def
        generate_translation_todo_def files_to_translate_def dict_get_def print_def)

section \<open>The handlers of \<open>main\<close>\<close>

text \<open>
  What holds of the validation: a path that does not exist is refused before any search
  is started, and \<open>main\<close> prints the message of the \<open>FileNotFoundError\<close>; with a
  directory the search is started.
\<close>

lemma missing_path_not_found:
  assumes "path_kind_of e directory = Missing"
  shows "get_rust_comments e directory w =
           (Inl (FileNotFoundError (py ''Directory not found: '' @ directory)), w) \<and>
         run_calls (snd (get_rust_comments e directory w)) = run_calls w \<and>
         main e (Some directory) w =
           print (py ''Error: '' @ py ''Directory not found: '' @ directory) w"
  using assms by (simp add: main_def get_rust_comments_def os_path_exists_def)

lemma directory_passes_validation:
  assumes "path_kind_of e directory = Directory"
  shows "run_calls (snd (get_rust_comments e directory w)) = run_calls w @ [directory]"
  using assms
  by (cases "rg e directory")
     (simp_all add: get_rust_comments_exited get_rust_comments_launch_fails os_path_exists_def)

text \<open>
  When the search program itself cannot be started, \<open>subprocess.run\<close> raises a
  \<open>FileNotFoundError\<close> of its own, and \<open>main\<close> reports it through the handler that is
  meant for the missing directory.
\<close>

lemma missing_program_reported_as_not_found:
  assumes "os_path_exists e directory" and "rg e directory = LaunchFails (NoSuchFile m)"
  shows "stdout (main e (Some directory) w) = stdout w @ [py ''Error: '' @ m]"
  using assms by (simp add: main_def get_rust_comments_launch_fails print_def)

text \<open>
  C1. The claim is that a failing search is caught as \<open>CalledProcessError\<close> and
  reported with the message \<open>Unable to search in directory\<close>. The call of
  \<open>subprocess.run\<close> does not ask for the check of the return code, so no run raises that
  exception (\<open>get_rust_comments_never_CalledProcessError\<close>), and the handler for it is
  never entered. In the sample environment
  the search in \<open>locked\<close> fails with return code 2: \<open>main\<close> prints the two headers of a
  scan that found nothing, and no error message.
\<close>

theorem search_failure_not_reported:
  "rg sample_env (py ''locked'') = Exited 2 [] \<and>
   stdout (main sample_env (Some (py ''locked'')) sample_world) =
     [10 # py ''=== Spanish Comments (es) ==='', 10 # py ''=== Files to Translate Summary ===''] \<and>
   py ''Error: Unable to search in directory: locked''
     \<notin> set (stdout (main sample_env (Some (py ''locked'')) sample_world))"
  by (simp add: main_def sample_defs scan_defs print_comments_by_language_def
        generate_translation_todo_def files_to_translate_def dict_get_def print_def)

text \<open>
  C2. The claim is that every path that is not an existing directory is refused with a
  not-found error before the search. \<open>Cargo.toml\<close> is a regular file of the sample
  environment: \<open>os.path.exists\<close> accepts it, the search is started with it as working
  directory, the \<open>NotADirectoryError\<close> of that call is what \<open>get_rust_comments\<close>
  raises, and \<open>main\<close> prints the message of its last handler, not the not-found one.
\<close>

theorem regular_file_passes_validation:
  "path_kind_of sample_env (py ''Cargo.toml'') = RegularFile \<and>
   get_rust_comments sample_env (py ''Cargo.toml'') sample_world =
     (Inl (NotADirectoryError (errno_message ''[Errno 20] Not a directory'' (py ''Cargo.toml''))),
      sample_world\<lparr>run_calls := [py ''Cargo.toml'']\<rparr>) \<and>
   stdout (main sample_env (Some (py ''Cargo.toml'')) sample_world) =
     [py ''Error: An unexpected error occurred: '' @
      errno_message ''[Errno 20] Not a directory'' (py ''Cargo.toml'')]"
  by (simp add: main_def sample_defs scan_defs print_def)

end
